theory Spec2Isabelle
  imports Main "HOL-Library.Sublist"
begin

section \<open>The PDF renderer \<^verbatim>\<open>backend/pdf_render.js\<close>\<close>

text \<open>
  The script drives a headless browser through Puppeteer.  The browser, the file system
  and the process environment are outside the script, so they are parameters of the
  model: a \<open>world\<close> says which file a path names and how each awaited call settles, and
  the initial file system is a map from locations to nodes.  The script itself is embedded statement by statement; a
  statement transforms the process state and completes normally, by throwing, by
  terminating the process (\<^verbatim>\<open>process.exit\<close>) or not at all (an awaited promise that
  never settles).
\<close>

subsection \<open>Data\<close>

type_synonym path = string

text \<open>Different paths can name the same file (\<^verbatim>\<open>/tmp/a.html\<close> and \<^verbatim>\<open>/tmp/./a.html\<close>, or
  a link and its target).  A location is the canonical path of the file a path names;
  the file system is keyed by locations, and the world says which location a path
  names.  The script never normalises or compares paths, it only hands them to
  \<^verbatim>\<open>fs\<close> and to the browser.\<close>

type_synonym location = string

text \<open>A directory entry: a regular file with its text, or something that exists but
  that \<^verbatim>\<open>fs.readFileSync\<close> cannot read (a directory, a file without read permission).\<close>

datatype node = File string | Unreadable

text \<open>How an awaited promise settles.\<close>

datatype outcome = Resolves | Rejects string | Pending

text \<open>The argument of \<^verbatim>\<open>puppeteer.launch\<close> (lines 24-35).\<close>

record launch_options =
  headless :: string
  args :: "string list"
  executablePath :: string

text \<open>The argument of \<^verbatim>\<open>page.pdf\<close> (lines 58-68).\<close>

record margin_options =
  margin_top :: string
  margin_bottom :: string
  margin_left :: string
  margin_right :: string

record pdf_options =
  path :: path
  format :: string
  printBackground :: bool
  margin :: margin_options

text \<open>The calls the script issues to the browser and to the file system, in the order
  in which it issues them.\<close>

datatype event =
    Launch launch_options
  | NewPage
  | ReadFile path string
  | SetContent string string
  | FontsReady
  | WaitForTimeout nat
  | Pdf pdf_options
  | Close

datatype browser_status = NotLaunched | Running | Closed

text \<open>What the script does not decide.\<close>

record world =
  resolve :: "path \<Rightarrow> location"
  env_executable :: "string option"
  bundled_executable :: "string + string"
  launch_result :: "launch_options \<Rightarrow> outcome"
  newPage_result :: outcome
  setContent_result :: "string \<Rightarrow> outcome"
  fonts_result :: outcome
  waitForTimeout_result :: "nat \<Rightarrow> outcome"
  pdf_result :: "pdf_options \<Rightarrow> outcome"
  pdf_bytes :: string
  close_result :: outcome

text \<open>The state of the process: both output streams (one entry per console call), the
  file system, the browser, the calls issued so far and the exit status once the process
  has terminated.\<close>

record proc =
  stdout :: "string list"
  stderr :: "string list"
  files :: "location \<rightharpoonup> node"
  browser :: browser_status
  calls :: "event list"
  exit_code :: "int option"

definition initial :: "(location \<rightharpoonup> node) \<Rightarrow> proc" where
  "initial fs = \<lparr>stdout = [], stderr = [], files = fs, browser = NotLaunched,
                  calls = [], exit_code = None\<rparr>"

subsection \<open>Statements\<close>

datatype completion = Normal | Thrown string | Exited | Hung

type_synonym stmt = "proc \<Rightarrow> completion \<times> proc"

fun block :: "stmt list \<Rightarrow> stmt" where
  "block [] s = (Normal, s)"
| "block (a # as) s = (case a s of (Normal, s') \<Rightarrow> block as s' | (c, s') \<Rightarrow> (c, s'))"

definition if_then :: "(proc \<Rightarrow> bool) \<Rightarrow> stmt \<Rightarrow> stmt" where
  "if_then c a s = (if c s then a s else (Normal, s))"

definition console_log :: "string \<Rightarrow> stmt" where
  "console_log l s = (Normal, s\<lparr>stdout := stdout s @ [l]\<rparr>)"

definition console_error :: "string \<Rightarrow> stmt" where
  "console_error l s = (Normal, s\<lparr>stderr := stderr s @ [l]\<rparr>)"

text \<open>\<^verbatim>\<open>process.exit(code)\<close> terminates the process synchronously: nothing of the script
  runs after it, neither a \<^verbatim>\<open>finally\<close> block nor a promise handler.\<close>

definition process_exit :: "int \<Rightarrow> stmt" where
  "process_exit code s = (Exited, s\<lparr>exit_code := Some code\<rparr>)"

text \<open>\<^verbatim>\<open>await call\<close>: the call is issued; when its promise resolves the effect of the
  call has taken place, when it rejects the rejection is thrown, and while it is pending
  the script does not continue.\<close>

definition await :: "event \<Rightarrow> outcome \<Rightarrow> (proc \<Rightarrow> proc) \<Rightarrow> stmt" where
  "await ev r eff s =
     (let s' = s\<lparr>calls := calls s @ [ev]\<rparr> in
      case r of
        Resolves \<Rightarrow> (Normal, eff s')
      | Rejects e \<Rightarrow> (Thrown e, s')
      | Pending \<Rightarrow> (Hung, s'))"

text \<open>\<^verbatim>\<open>try { body } catch (error) { handler } finally { fin }\<close>.  The \<^verbatim>\<open>finally\<close> block
  runs when the body or the handler completes normally or by throwing; it does not run
  when the process has terminated or the script is stuck in an await.\<close>

definition try_catch_finally :: "stmt \<Rightarrow> (string \<Rightarrow> stmt) \<Rightarrow> stmt \<Rightarrow> stmt" where
  "try_catch_finally body handler fin s =
     (case body s of
        (Normal, s1) \<Rightarrow> fin s1
      | (Thrown e, s1) \<Rightarrow>
          (case handler e s1 of
             (Normal, s2) \<Rightarrow> fin s2
           | (Thrown e', s2) \<Rightarrow>
               (case fin s2 of (Normal, s3) \<Rightarrow> (Thrown e', s3) | (c, s3) \<Rightarrow> (c, s3))
           | (c, s2) \<Rightarrow> (c, s2))
      | (c, s1) \<Rightarrow> (c, s1))"

text \<open>\<^verbatim>\<open>promise.then(onOk).catch(onErr)\<close> on the promise of an async function.\<close>

definition then_catch :: "stmt \<Rightarrow> stmt \<Rightarrow> (string \<Rightarrow> stmt) \<Rightarrow> stmt" where
  "then_catch p onOk onErr s =
     (case p s of
        (Normal, s1) \<Rightarrow>
          (case onOk s1 of (Thrown e, s2) \<Rightarrow> onErr e s2 | (c, s2) \<Rightarrow> (c, s2))
      | (Thrown e, s1) \<Rightarrow> onErr e s1
      | (c, s1) \<Rightarrow> (c, s1))"

subsection \<open>File system calls\<close>

text \<open>\<^verbatim>\<open>fs.existsSync(p)\<close> and \<^verbatim>\<open>fs.readFileSync(p, encoding)\<close> look at the file the path
  names.  With an encoding the result is the text of the file, decoded.\<close>

definition existsSync :: "world \<Rightarrow> proc \<Rightarrow> path \<Rightarrow> bool" where
  "existsSync w s p = (files s (resolve w p) \<noteq> None)"

definition readFileSync :: "world \<Rightarrow> proc \<Rightarrow> path \<Rightarrow> string \<Rightarrow> string + string" where
  "readFileSync w s p encoding =
     (case files s (resolve w p) of
        Some (File text) \<Rightarrow> Inr text
      | Some Unreadable \<Rightarrow> Inl (''cannot read '' @ p)
      | None \<Rightarrow> Inl (''ENOENT '' @ p))"

subsection \<open>\<^verbatim>\<open>generatePDF\<close> (lines 10-80)\<close>

text \<open>Line 34: \<^verbatim>\<open>process.env.PUPPETEER_EXECUTABLE_PATH || puppeteer.executablePath()\<close>.
  An environment variable is a string or undefined; the empty string is falsy, and the
  right operand is evaluated only then.  \<^verbatim>\<open>puppeteer.executablePath()\<close> returns a path
  (\<open>Inr\<close>) or throws (\<open>Inl\<close>).\<close>

definition executablePath_expr :: "world \<Rightarrow> string + string" where
  "executablePath_expr w =
     (case env_executable w of
        Some p \<Rightarrow> if p \<noteq> [] then Inr p else bundled_executable w
      | None \<Rightarrow> bundled_executable w)"

definition launch_request :: "string \<Rightarrow> launch_options" where
  "launch_request exe =
     \<lparr>headless = ''new'',
      args = [''--no-sandbox'', ''--disable-setuid-sandbox'', ''--disable-dev-shm-usage'',
              ''--disable-gpu'', ''--disable-software-rasterizer'', ''--disable-extensions''],
      executablePath = exe\<rparr>"

text \<open>Lines 24-35: the options object is built, then \<^verbatim>\<open>puppeteer.launch\<close> is awaited and
  its result assigned to \<^verbatim>\<open>browser\<close>.\<close>

definition launch_browser :: "world \<Rightarrow> stmt" where
  "launch_browser w s =
     (case executablePath_expr w of
        Inl e \<Rightarrow> (Thrown e, s)
      | Inr exe \<Rightarrow>
          await (Launch (launch_request exe)) (launch_result w (launch_request exe))
            (\<lambda>s. s\<lparr>browser := Running\<rparr>) s)"

text \<open>Lines 42-45.\<close>

definition load_html :: "world \<Rightarrow> path \<Rightarrow> stmt" where
  "load_html w htmlPath s =
     (let s' = s\<lparr>calls := calls s @ [ReadFile htmlPath ''utf8'']\<rparr> in
      case readFileSync w s htmlPath ''utf8'' of
        Inl e \<Rightarrow> (Thrown e, s')
      | Inr htmlContent \<Rightarrow>
          await (SetContent htmlContent ''networkidle0'') (setContent_result w htmlContent)
            id s')"

definition pdf_request :: "path \<Rightarrow> pdf_options" where
  "pdf_request outputPath =
     \<lparr>path = outputPath, format = ''A4'', printBackground = True,
      margin = \<lparr>margin_top = ''10mm'', margin_bottom = ''15mm'',
                margin_left = ''10mm'', margin_right = ''10mm''\<rparr>\<rparr>"

text \<open>Lines 58-68.  When the capture resolves, the browser has written the document to
  the file that the \<open>path\<close> of the request names.\<close>

definition page_pdf :: "world \<Rightarrow> pdf_options \<Rightarrow> stmt" where
  "page_pdf w opts =
     await (Pdf opts) (pdf_result w opts)
       (\<lambda>s. s\<lparr>files := (files s)(resolve w (path opts) \<mapsto> File (pdf_bytes w))\<rparr>)"

definition render_steps :: "world \<Rightarrow> path \<Rightarrow> path \<Rightarrow> stmt" where
  "render_steps w htmlPath outputPath = block
     [launch_browser w,
      console_log ''Browser launched'',
      await NewPage (newPage_result w) id,
      load_html w htmlPath,
      console_log ''HTML loaded'',
      await FontsReady (fonts_result w) id,
      console_log ''Fonts loaded'',
      await (WaitForTimeout 2000) (waitForTimeout_result w 2000) id,
      console_log ''KaTeX rendered'',
      page_pdf w (pdf_request outputPath),
      console_log ''PDF generated successfully!'']"

definition generatePDF :: "world \<Rightarrow> path \<Rightarrow> path \<Rightarrow> stmt" where
  "generatePDF w htmlPath outputPath = block
     [console_log ''Starting PDF generation...'',
      console_log (''HTML: '' @ htmlPath),
      console_log (''Output: '' @ outputPath),
      if_then (\<lambda>s. \<not> existsSync w s htmlPath)
        (block [console_error (''HTML file not found: '' @ htmlPath), process_exit 1]),
      try_catch_finally
        (render_steps w htmlPath outputPath)
        (\<lambda>error. block [console_error (''Error generating PDF: '' @ error), process_exit 1])
        (if_then (\<lambda>s. browser s \<noteq> NotLaunched)
           (await Close (close_result w) (\<lambda>s. s\<lparr>browser := Closed\<rparr>)))]"

subsection \<open>The script (lines 82-100)\<close>

definition usage :: string where
  "usage = ''Usage: node pdf_render.js <html_path> <output_path>''"

text \<open>\<open>argv\<close> is \<^verbatim>\<open>process.argv\<close>: the interpreter, the script, then the arguments.  The
  usage branch ends in \<^verbatim>\<open>process.exit(1)\<close>, so the destructuring of line 90 and the call of
  line 92 run only when there are exactly two arguments.\<close>

definition pdf_render :: "world \<Rightarrow> (location \<rightharpoonup> node) \<Rightarrow> string list \<Rightarrow> completion \<times> proc" where
  "pdf_render w fs argv =
     (let args = drop 2 argv in
      if length args \<noteq> 2 then block [console_error usage, process_exit 1] (initial fs)
      else
        (let htmlPath = args ! 0; outputPath = args ! 1 in
         then_catch (generatePDF w htmlPath outputPath)
           (block [console_log ''Done!'', process_exit 0])
           (\<lambda>error. block [console_error (''Fatal error: '' @ error), process_exit 1])
           (initial fs)))"

subsection \<open>The specification's view of a run\<close>

text \<open>The specification describes one sequential pipeline.  \<open>spec_pipeline\<close> is that
  sequence of calls, written from the specification's words (launch, open a page, read
  the HTML, set the content and wait for network idle, wait for the fonts, wait 2000
  milliseconds, capture, close); \<open>step_outcomes\<close> lists, in the same order, how the world
  settles each of them.\<close>

definition html_of :: "world \<Rightarrow> (location \<rightharpoonup> node) \<Rightarrow> path \<Rightarrow> string" where
  "html_of w fs p = (case fs (resolve w p) of Some (File text) \<Rightarrow> text | _ \<Rightarrow> [])"

definition read_outcome :: "world \<Rightarrow> (location \<rightharpoonup> node) \<Rightarrow> path \<Rightarrow> outcome" where
  "read_outcome w fs p =
     (case fs (resolve w p) of
        Some (File text) \<Rightarrow> Resolves
      | Some Unreadable \<Rightarrow> Rejects (''cannot read '' @ p)
      | None \<Rightarrow> Rejects (''ENOENT '' @ p))"

definition spec_pipeline :: "string \<Rightarrow> path \<Rightarrow> string \<Rightarrow> path \<Rightarrow> event list" where
  "spec_pipeline exe htmlPath html outputPath =
     [Launch (launch_request exe), NewPage, ReadFile htmlPath ''utf8'',
      SetContent html ''networkidle0'', FontsReady, WaitForTimeout 2000,
      Pdf (pdf_request outputPath), Close]"

definition step_outcomes :: "world \<Rightarrow> (location \<rightharpoonup> node) \<Rightarrow> string \<Rightarrow> path \<Rightarrow> path \<Rightarrow> outcome list" where
  "step_outcomes w fs exe htmlPath outputPath =
     [launch_result w (launch_request exe), newPage_result w, read_outcome w fs htmlPath,
      setContent_result w (html_of w fs htmlPath), fonts_result w,
      waitForTimeout_result w 2000, pdf_result w (pdf_request outputPath),
      close_result w]"

text \<open>The exit status as the specification gives it: 1 for a wrong argument count, 1 for
  a missing input file, 1 when a step of the pipeline fails, 0 when every step succeeds.
  A step that never settles leaves the process without an exit status.\<close>

fun exit_of :: "outcome list \<Rightarrow> int option" where
  "exit_of [] = Some 0"
| "exit_of (Resolves # rs) = exit_of rs"
| "exit_of (Rejects e # rs) = Some 1"
| "exit_of (Pending # rs) = None"

definition spec_exit_code :: "world \<Rightarrow> (location \<rightharpoonup> node) \<Rightarrow> string list \<Rightarrow> int option" where
  "spec_exit_code w fs argv =
     (let args = drop 2 argv in
      if length args \<noteq> 2 then Some 1
      else if fs (resolve w (args ! 0)) = None then Some 1
      else
        (case executablePath_expr w of
           Inl e \<Rightarrow> Some 1
         | Inr exe \<Rightarrow> exit_of (step_outcomes w fs exe (args ! 0) (args ! 1))))"

text \<open>The lines the script prints on standard output, in order.\<close>

definition progress :: "path \<Rightarrow> path \<Rightarrow> string list" where
  "progress htmlPath outputPath =
     [''Starting PDF generation...'', ''HTML: '' @ htmlPath, ''Output: '' @ outputPath,
      ''Browser launched'', ''HTML loaded'', ''Fonts loaded'', ''KaTeX rendered'',
      ''PDF generated successfully!'', ''Done!'']"

text \<open>The state of a run that has printed \<open>out\<close> and issued the calls \<open>cs\<close>, and how it
  ends when the next awaited call settles as \<open>r\<close>: a rejection is reported under \<open>label\<close>
  and the process exits with status 1, a pending call leaves the run where it is.\<close>

definition reached :: "(location \<rightharpoonup> node) \<Rightarrow> string list \<Rightarrow> browser_status \<Rightarrow> event list \<Rightarrow> proc" where
  "reached fs out b cs =
     \<lparr>stdout = out, stderr = [], files = fs, browser = b, calls = cs, exit_code = None\<rparr>"

definition stopped :: "string \<Rightarrow> outcome \<Rightarrow> proc \<Rightarrow> completion \<times> proc" where
  "stopped label r s =
     (case r of
        Resolves \<Rightarrow> (Normal, s)
      | Rejects e \<Rightarrow> (Exited, s\<lparr>stderr := [label @ e], exit_code := Some 1\<rparr>)
      | Pending \<Rightarrow> (Hung, s))"

fun is_capture :: "event \<Rightarrow> bool" where
  "is_capture (Pdf opts) = True"
| "is_capture ev = False"

subsection \<open>Concrete runs\<close>

text \<open>A world in which every path names itself and every call succeeds; the executable
  is the one the image sets in \<^verbatim>\<open>PUPPETEER_EXECUTABLE_PATH\<close>.\<close>

definition ok_world :: world where
  "ok_world =
     \<lparr>resolve = (\<lambda>p. p),
      env_executable = Some ''/usr/bin/chromium'',
      bundled_executable = Inr ''/app/.cache/puppeteer/chrome'',
      launch_result = (\<lambda>opts. Resolves),
      newPage_result = Resolves,
      setContent_result = (\<lambda>html. Resolves),
      fonts_result = Resolves,
      waitForTimeout_result = (\<lambda>ms. Resolves),
      pdf_result = (\<lambda>opts. Resolves),
      pdf_bytes = ''%PDF-1.4'',
      close_result = Resolves\<rparr>"

text \<open>The same world, except that loading the page times out.\<close>

definition load_timeout_world :: world where
  "load_timeout_world =
     ok_world\<lparr>setContent_result := (\<lambda>html. Rejects ''TimeoutError: Navigation timeout'')\<rparr>"

text \<open>The same world, except that nothing can be written below \<^verbatim>\<open>/missing\<close>.\<close>

definition no_dir_world :: world where
  "no_dir_world =
     ok_world\<lparr>pdf_result := (\<lambda>opts. if take 9 (path opts) = ''/missing/''
                                    then Rejects ''ENOENT: no such file or directory''
                                    else Resolves)\<rparr>"

text \<open>The same world without the environment variable.\<close>

definition no_env_world :: world where
  "no_env_world = ok_world\<lparr>env_executable := None\<rparr>"

text \<open>The same world, in which \<^verbatim>\<open>/tmp/./sheet.html\<close> names the file \<^verbatim>\<open>/tmp/sheet.html\<close>.\<close>

definition alias_world :: world where
  "alias_world =
     ok_world\<lparr>resolve := (\<lambda>p. if p = ''/tmp/./sheet.html'' then ''/tmp/sheet.html'' else p)\<rparr>"

definition demo_fs :: "location \<rightharpoonup> node" where
  "demo_fs = [''/tmp/sheet.html'' \<mapsto> File ''<p>x</p>'']"

definition demo_argv :: "string list" where
  "demo_argv = [''node'', ''pdf_render.js'', ''/tmp/sheet.html'', ''/tmp/sheet.pdf'']"

definition same_path_argv :: "string list" where
  "same_path_argv = [''node'', ''pdf_render.js'', ''/tmp/sheet.html'', ''/tmp/sheet.html'']"

definition alias_argv :: "string list" where
  "alias_argv = [''node'', ''pdf_render.js'', ''/tmp/sheet.html'', ''/tmp/./sheet.html'']"

definition no_dir_argv :: "string list" where
  "no_dir_argv = [''node'', ''pdf_render.js'', ''/tmp/sheet.html'', ''/missing/sheet.pdf'']"

definition one_arg_argv :: "string list" where
  "one_arg_argv = [''node'', ''pdf_render.js'', ''/tmp/sheet.html'']"

definition missing_html_argv :: "string list" where
  "missing_html_argv = [''node'', ''pdf_render.js'', ''/tmp/none.html'', ''/tmp/sheet.pdf'']"

section \<open>Properties\<close>

subsection \<open>Symbolic execution of a run\<close>

lemmas stmt_defs = if_then_def console_log_def console_error_def process_exit_def await_def
  try_catch_finally_def then_catch_def existsSync_def readFileSync_def
  launch_browser_def load_html_def page_pdf_def Let_def

lemmas run_defs = pdf_render_def generatePDF_def render_steps_def initial_def stmt_defs

lemmas stage_defs = stopped_def reached_def progress_def spec_pipeline_def

lemmas demo_defs = ok_world_def load_timeout_world_def no_dir_world_def no_env_world_def
  alias_world_def alias_argv_def
  demo_fs_def demo_argv_def same_path_argv_def no_dir_argv_def one_arg_argv_def
  missing_html_argv_def executablePath_expr_def launch_request_def pdf_request_def

lemma run_missing_html:
  assumes "drop 2 argv = [h, out]" and "fs (resolve w h) = None"
  shows "pdf_render w fs argv =
     (Exited, (reached fs (take 3 (progress h out)) NotLaunched [])
                \<lparr>stderr := [''HTML file not found: '' @ h], exit_code := Some 1\<rparr>)"
  using assms by (simp add: run_defs stage_defs)

lemma run_no_executable:
  assumes "drop 2 argv = [h, out]" and "fs (resolve w h) = Some n" and "executablePath_expr w = Inl e"
  shows "pdf_render w fs argv =
     stopped ''Error generating PDF: '' (Rejects e)
       (reached fs (take 3 (progress h out)) NotLaunched [])"
  using assms by (simp add: run_defs stage_defs)

lemma run_stops_at_launch:
  assumes "drop 2 argv = [h, out]" and "fs (resolve w h) = Some n" and "executablePath_expr w = Inr exe"
    and "launch_result w (launch_request exe) = r" and "r \<noteq> Resolves"
  shows "pdf_render w fs argv =
     stopped ''Error generating PDF: '' r
       (reached fs (take 3 (progress h out)) NotLaunched
          (take 1 (spec_pipeline exe h html out)))"
  using assms by (cases r) (simp_all add: run_defs stage_defs)

lemma run_stops_at_newPage:
  assumes "drop 2 argv = [h, out]" and "fs (resolve w h) = Some n" and "executablePath_expr w = Inr exe"
    and "launch_result w (launch_request exe) = Resolves"
    and "newPage_result w = r" and "r \<noteq> Resolves"
  shows "pdf_render w fs argv =
     stopped ''Error generating PDF: '' r
       (reached fs (take 4 (progress h out)) Running
          (take 2 (spec_pipeline exe h html out)))"
  using assms by (cases r) (simp_all add: run_defs stage_defs)

lemma run_stops_at_read:
  assumes "drop 2 argv = [h, out]" and "fs (resolve w h) = Some Unreadable"
    and "executablePath_expr w = Inr exe"
    and "launch_result w (launch_request exe) = Resolves"
    and "newPage_result w = Resolves"
  shows "pdf_render w fs argv =
     stopped ''Error generating PDF: '' (Rejects (''cannot read '' @ h))
       (reached fs (take 4 (progress h out)) Running
          (take 3 (spec_pipeline exe h html out)))"
  using assms by (simp add: run_defs stage_defs)

lemma run_stops_at_setContent:
  assumes "drop 2 argv = [h, out]" and "fs (resolve w h) = Some (File html)"
    and "executablePath_expr w = Inr exe"
    and "launch_result w (launch_request exe) = Resolves"
    and "newPage_result w = Resolves"
    and "setContent_result w html = r" and "r \<noteq> Resolves"
  shows "pdf_render w fs argv =
     stopped ''Error generating PDF: '' r
       (reached fs (take 4 (progress h out)) Running
          (take 4 (spec_pipeline exe h html out)))"
  using assms by (cases r) (simp_all add: run_defs stage_defs)

lemma run_stops_at_fonts:
  assumes "drop 2 argv = [h, out]" and "fs (resolve w h) = Some (File html)"
    and "executablePath_expr w = Inr exe"
    and "launch_result w (launch_request exe) = Resolves"
    and "newPage_result w = Resolves"
    and "setContent_result w html = Resolves"
    and "fonts_result w = r" and "r \<noteq> Resolves"
  shows "pdf_render w fs argv =
     stopped ''Error generating PDF: '' r
       (reached fs (take 5 (progress h out)) Running
          (take 5 (spec_pipeline exe h html out)))"
  using assms by (cases r) (simp_all add: run_defs stage_defs)

lemma run_stops_at_timeout:
  assumes "drop 2 argv = [h, out]" and "fs (resolve w h) = Some (File html)"
    and "executablePath_expr w = Inr exe"
    and "launch_result w (launch_request exe) = Resolves"
    and "newPage_result w = Resolves"
    and "setContent_result w html = Resolves"
    and "fonts_result w = Resolves"
    and "waitForTimeout_result w 2000 = r" and "r \<noteq> Resolves"
  shows "pdf_render w fs argv =
     stopped ''Error generating PDF: '' r
       (reached fs (take 6 (progress h out)) Running
          (take 6 (spec_pipeline exe h html out)))"
  using assms by (cases r) (simp_all add: run_defs stage_defs)

lemma run_stops_at_pdf:
  assumes "drop 2 argv = [h, out]" and "fs (resolve w h) = Some (File html)"
    and "executablePath_expr w = Inr exe"
    and "launch_result w (launch_request exe) = Resolves"
    and "newPage_result w = Resolves"
    and "setContent_result w html = Resolves"
    and "fonts_result w = Resolves"
    and "waitForTimeout_result w 2000 = Resolves"
    and "pdf_result w (pdf_request out) = r" and "r \<noteq> Resolves"
  shows "pdf_render w fs argv =
     stopped ''Error generating PDF: '' r
       (reached fs (take 7 (progress h out)) Running
          (take 7 (spec_pipeline exe h html out)))"
  using assms by (cases r) (simp_all add: run_defs stage_defs)

lemma run_stops_at_close:
  assumes "drop 2 argv = [h, out]" and "fs (resolve w h) = Some (File html)"
    and "executablePath_expr w = Inr exe"
    and "launch_result w (launch_request exe) = Resolves"
    and "newPage_result w = Resolves"
    and "setContent_result w html = Resolves"
    and "fonts_result w = Resolves"
    and "waitForTimeout_result w 2000 = Resolves"
    and "pdf_result w (pdf_request out) = Resolves"
    and "close_result w = r" and "r \<noteq> Resolves"
  shows "pdf_render w fs argv =
     stopped ''Fatal error: '' r
       (reached (fs(resolve w out \<mapsto> File (pdf_bytes w))) (take 8 (progress h out)) Running
          (spec_pipeline exe h html out))"
  using assms by (cases r) (simp_all add: run_defs stage_defs pdf_request_def)

lemma run_succeeds:
  assumes "drop 2 argv = [h, out]" and "fs (resolve w h) = Some (File html)"
    and "executablePath_expr w = Inr exe"
    and "launch_result w (launch_request exe) = Resolves"
    and "newPage_result w = Resolves"
    and "setContent_result w html = Resolves"
    and "fonts_result w = Resolves"
    and "waitForTimeout_result w 2000 = Resolves"
    and "pdf_result w (pdf_request out) = Resolves"
    and "close_result w = Resolves"
  shows "pdf_render w fs argv =
     (Exited, (reached (fs(resolve w out \<mapsto> File (pdf_bytes w))) (progress h out) Closed
                 (spec_pipeline exe h html out))\<lparr>exit_code := Some 0\<rparr>)"
  using assms by (simp add: run_defs stage_defs pdf_request_def)

text \<open>Every run with two arguments ends in exactly one of eleven ways: at the check of
  the input file, at the evaluation of the executable path, at the first awaited call
  that does not resolve, or after all of them.\<close>

lemma stopped_simps:
  "stdout (snd (stopped l r s)) = stdout s"
  "files (snd (stopped l r s)) = files s"
  "browser (snd (stopped l r s)) = browser s"
  "calls (snd (stopped l r s)) = calls s"
  "r \<noteq> Resolves \<Longrightarrow>
     exit_code (snd (stopped l r s)) = (if r = Pending then exit_code s else Some 1)"
  "r \<noteq> Resolves \<Longrightarrow> fst (stopped l r s) = (if r = Pending then Hung else Exited)"
  by (cases r; simp add: stopped_def)+

lemma run_cases [consumes 1, case_names missing no_executable launch newPage read
    setContent fonts timeout pdf close success]:
  assumes args: "drop 2 argv = [h, out]"
  obtains
    "fs (resolve w h) = None"
    "pdf_render w fs argv =
       (Exited, (reached fs (take 3 (progress h out)) NotLaunched [])
                  \<lparr>stderr := [''HTML file not found: '' @ h], exit_code := Some 1\<rparr>)"
  | e where "fs (resolve w h) \<noteq> None" "executablePath_expr w = Inl e"
    "pdf_render w fs argv =
       stopped ''Error generating PDF: '' (Rejects e)
         (reached fs (take 3 (progress h out)) NotLaunched [])"
  | exe r where "fs (resolve w h) \<noteq> None" "executablePath_expr w = Inr exe"
    "launch_result w (launch_request exe) = r" "r \<noteq> Resolves"
    "pdf_render w fs argv =
       stopped ''Error generating PDF: '' r
         (reached fs (take 3 (progress h out)) NotLaunched
            (take 1 (spec_pipeline exe h (html_of w fs h) out)))"
  | exe r where "fs (resolve w h) \<noteq> None" "executablePath_expr w = Inr exe"
    "launch_result w (launch_request exe) = Resolves"
    "newPage_result w = r" "r \<noteq> Resolves"
    "pdf_render w fs argv =
       stopped ''Error generating PDF: '' r
         (reached fs (take 4 (progress h out)) Running
            (take 2 (spec_pipeline exe h (html_of w fs h) out)))"
  | exe where "fs (resolve w h) = Some Unreadable" "executablePath_expr w = Inr exe"
    "launch_result w (launch_request exe) = Resolves"
    "newPage_result w = Resolves"
    "pdf_render w fs argv =
       stopped ''Error generating PDF: '' (Rejects (''cannot read '' @ h))
         (reached fs (take 4 (progress h out)) Running
            (take 3 (spec_pipeline exe h (html_of w fs h) out)))"
  | exe html r where "fs (resolve w h) = Some (File html)" "executablePath_expr w = Inr exe"
    "launch_result w (launch_request exe) = Resolves"
    "newPage_result w = Resolves"
    "setContent_result w html = r" "r \<noteq> Resolves"
    "pdf_render w fs argv =
       stopped ''Error generating PDF: '' r
         (reached fs (take 4 (progress h out)) Running
            (take 4 (spec_pipeline exe h html out)))"
  | exe html r where "fs (resolve w h) = Some (File html)" "executablePath_expr w = Inr exe"
    "launch_result w (launch_request exe) = Resolves"
    "newPage_result w = Resolves"
    "setContent_result w html = Resolves"
    "fonts_result w = r" "r \<noteq> Resolves"
    "pdf_render w fs argv =
       stopped ''Error generating PDF: '' r
         (reached fs (take 5 (progress h out)) Running
            (take 5 (spec_pipeline exe h html out)))"
  | exe html r where "fs (resolve w h) = Some (File html)" "executablePath_expr w = Inr exe"
    "launch_result w (launch_request exe) = Resolves"
    "newPage_result w = Resolves"
    "setContent_result w html = Resolves"
    "fonts_result w = Resolves"
    "waitForTimeout_result w 2000 = r" "r \<noteq> Resolves"
    "pdf_render w fs argv =
       stopped ''Error generating PDF: '' r
         (reached fs (take 6 (progress h out)) Running
            (take 6 (spec_pipeline exe h html out)))"
  | exe html r where "fs (resolve w h) = Some (File html)" "executablePath_expr w = Inr exe"
    "launch_result w (launch_request exe) = Resolves"
    "newPage_result w = Resolves"
    "setContent_result w html = Resolves"
    "fonts_result w = Resolves"
    "waitForTimeout_result w 2000 = Resolves"
    "pdf_result w (pdf_request out) = r" "r \<noteq> Resolves"
    "pdf_render w fs argv =
       stopped ''Error generating PDF: '' r
         (reached fs (take 7 (progress h out)) Running
            (take 7 (spec_pipeline exe h html out)))"
  | exe html r where "fs (resolve w h) = Some (File html)" "executablePath_expr w = Inr exe"
    "launch_result w (launch_request exe) = Resolves"
    "newPage_result w = Resolves"
    "setContent_result w html = Resolves"
    "fonts_result w = Resolves"
    "waitForTimeout_result w 2000 = Resolves"
    "pdf_result w (pdf_request out) = Resolves"
    "close_result w = r" "r \<noteq> Resolves"
    "pdf_render w fs argv =
       stopped ''Fatal error: '' r
         (reached (fs(resolve w out \<mapsto> File (pdf_bytes w))) (take 8 (progress h out)) Running
            (spec_pipeline exe h html out))"
  | exe html where "fs (resolve w h) = Some (File html)" "executablePath_expr w = Inr exe"
    "launch_result w (launch_request exe) = Resolves"
    "newPage_result w = Resolves"
    "setContent_result w html = Resolves"
    "fonts_result w = Resolves"
    "waitForTimeout_result w 2000 = Resolves"
    "pdf_result w (pdf_request out) = Resolves"
    "close_result w = Resolves"
    "pdf_render w fs argv =
       (Exited, (reached (fs(resolve w out \<mapsto> File (pdf_bytes w))) (progress h out) Closed
                   (spec_pipeline exe h html out))\<lparr>exit_code := Some 0\<rparr>)"
proof (cases "fs (resolve w h)")
  case None
  with that(1) run_missing_html [where fs = fs and w = w, OF args] show ?thesis by blast
next
  case (Some n)
  show ?thesis
  proof (cases "executablePath_expr w")
    case (Inl e)
    with that(2) Some run_no_executable [where fs = fs and w = w, OF args] show ?thesis by blast
  next
    case (Inr exe)
    show ?thesis
    proof (cases "launch_result w (launch_request exe) = Resolves")
      case False
      with that(3) [of exe] Some Inr run_stops_at_launch [where fs = fs and w = w and html = "html_of w fs h", OF args Some Inr refl False]
      show ?thesis by simp
    next
      case launch: True
      show ?thesis
      proof (cases "newPage_result w = Resolves")
        case False
        with that(4) [of exe] Some Inr launch
          run_stops_at_newPage [where fs = fs and w = w and html = "html_of w fs h", OF args Some Inr launch refl False]
        show ?thesis by simp
      next
        case newPage: True
        show ?thesis
        proof (cases n)
          case Unreadable
          with that(5) [of exe] Some Inr launch newPage
            run_stops_at_read [where fs = fs and w = w and html = "html_of w fs h", OF args _ Inr launch newPage]
          show ?thesis by simp
        next
          case (File html)
          then have html_file: "fs (resolve w h) = Some (File html)" using Some by simp
          have html: "html_of w fs h = html" using html_file by (simp add: html_of_def)
          show ?thesis
          proof (cases "setContent_result w html = Resolves")
            case False
            with that(6) html_file Inr launch newPage
              run_stops_at_setContent
                    [where fs = fs and w = w, OF args html_file Inr launch newPage refl False]
            show ?thesis by blast
          next
            case content: True
            show ?thesis
            proof (cases "fonts_result w = Resolves")
              case False
              with that(7) html_file Inr launch newPage content
                run_stops_at_fonts
                    [where fs = fs and w = w, OF args html_file Inr launch newPage content refl False]
              show ?thesis by blast
            next
              case fonts: True
              show ?thesis
              proof (cases "waitForTimeout_result w 2000 = Resolves")
                case False
                with that(8) html_file Inr launch newPage content fonts
                  run_stops_at_timeout
                    [where fs = fs and w = w, OF args html_file Inr launch newPage content fonts refl False]
                show ?thesis by blast
              next
                case settle: True
                show ?thesis
                proof (cases "pdf_result w (pdf_request out) = Resolves")
                  case False
                  with that(9) html_file Inr launch newPage content fonts settle
                    run_stops_at_pdf
                    [where fs = fs and w = w, OF args html_file Inr launch newPage content fonts settle refl False]
                  show ?thesis by blast
                next
                  case capture: True
                  show ?thesis
                  proof (cases "close_result w = Resolves")
                    case False
                    with that(10) html_file Inr launch newPage content fonts settle capture
                      run_stops_at_close
                    [where fs = fs and w = w, OF args html_file Inr launch newPage content fonts settle
                      capture
                          refl False]
                    show ?thesis by blast
                  next
                    case True
                    with that(11) html_file Inr launch newPage content fonts settle capture
                      run_succeeds
                    [where fs = fs and w = w, OF args html_file Inr launch newPage content fonts settle capture]
                    show ?thesis by blast
                  qed
                qed
              qed
            qed
          qed
        qed
      qed
    qed
  qed
qed

lemmas run_simps = stopped_simps reached_def progress_def spec_pipeline_def step_outcomes_def
  read_outcome_def html_of_def

lemma two_args: "length (xs :: string list) = 2 \<Longrightarrow> \<exists>a b. xs = [a, b]"
  by (cases xs; simp; cases "tl xs"; auto)

lemma exit_of_stop:
  "r \<noteq> Resolves \<Longrightarrow> exit_of (r # rs) = (if r = Pending then None else Some 1)"
  by (cases r) simp_all

lemma exit_of_range: "exit_of rs = None \<or> exit_of rs = Some 0 \<or> exit_of rs = Some 1"
  by (induction rs rule: exit_of.induct) simp_all

lemma spec_exit_code_range:
  "spec_exit_code w fs argv = None \<or> spec_exit_code w fs argv = Some 0
   \<or> spec_exit_code w fs argv = Some 1"
  using exit_of_range by (simp add: spec_exit_code_def Let_def split: sum.split)

lemma exit_code_wrong_count:
  "length (drop 2 argv) \<noteq> 2 \<Longrightarrow>
   exit_code (snd (pdf_render w fs argv)) = spec_exit_code w fs argv"
  by (simp add: pdf_render_def spec_exit_code_def console_error_def process_exit_def)

lemma spec_exit_code_two_args:
  "drop 2 argv = [h, out] \<Longrightarrow>
   spec_exit_code w fs argv =
     (if fs (resolve w h) = None then Some 1
      else case executablePath_expr w of
             Inl e \<Rightarrow> Some 1
           | Inr exe \<Rightarrow> exit_of (step_outcomes w fs exe h out))"
  by (simp add: spec_exit_code_def Let_def split: sum.split)

lemma exit_code_two_args:
  assumes "drop 2 argv = [h, out]"
  shows "exit_code (snd (pdf_render w fs argv)) = spec_exit_code w fs argv"
  using assms
  by (cases rule: run_cases [where w = w and fs = fs])
    (auto simp add: run_simps spec_exit_code_two_args [OF assms] exit_of_stop)

text \<open>The browser is asked to close only after the capture has resolved.\<close>

lemma close_only_after_capture:
  assumes "drop 2 argv = [h, out]"
  shows "Close \<in> set (calls (snd (pdf_render w fs argv)))
         \<longrightarrow> pdf_result w (pdf_request out) = Resolves"
  using assms
  by (cases rule: run_cases [where w = w and fs = fs]) (auto simp add: run_simps)

subsection \<open>Closing the browser\<close>

text \<open>
  C1.  The specification requires that, whenever the browser was launched, the renderer
  closes it before the process exits, on every exit path.  The script does not do this
  on the error paths.  In the run below the launch succeeds and loading the page is rejected: the handler of
  line 72 reports the error and calls \<^verbatim>\<open>process.exit(1)\<close>, which ends the process before the
  \<^verbatim>\<open>finally\<close> block of lines 75-79 can run.  The process exits with status 1, the browser is
  still running and \<^verbatim>\<open>browser.close()\<close> was never called.
\<close>

theorem error_path_skips_close:
  "fst (pdf_render load_timeout_world demo_fs demo_argv) = Exited
   \<and> exit_code (snd (pdf_render load_timeout_world demo_fs demo_argv)) = Some 1
   \<and> Launch (launch_request ''/usr/bin/chromium'')
        \<in> set (calls (snd (pdf_render load_timeout_world demo_fs demo_argv)))
   \<and> browser (snd (pdf_render load_timeout_world demo_fs demo_argv)) = Running
   \<and> Close \<notin> set (calls (snd (pdf_render load_timeout_world demo_fs demo_argv)))"
  by (simp add: run_defs demo_defs)

subsection \<open>Missing input file\<close>

text \<open>
  C2.  When \<open>htmlPath\<close> does not exist, the renderer writes the "file not found" message to
  standard error and exits with status 1; no call to the browser has been issued, the
  browser was not launched and the file system is unchanged, so no file was created at
  \<open>outputPath\<close>.  The theorem gives the whole final state.
\<close>

theorem missing_html_reported:
  assumes "drop 2 argv = [htmlPath, outputPath]" and "fs (resolve w htmlPath) = None"
  shows "pdf_render w fs argv =
     (Exited,
      \<lparr>stdout = [''Starting PDF generation...'', ''HTML: '' @ htmlPath,
                 ''Output: '' @ outputPath],
       stderr = [''HTML file not found: '' @ htmlPath],
       files = fs, browser = NotLaunched, calls = [], exit_code = Some 1\<rparr>)"
  using assms by (simp add: run_defs)

text \<open>The run on \<^verbatim>\<open>/tmp/none.html\<close>, which the file system does not have.\<close>

theorem missing_html_reported_witness:
  "drop 2 missing_html_argv = [''/tmp/none.html'', ''/tmp/sheet.pdf'']
   \<and> demo_fs (resolve ok_world ''/tmp/none.html'') = None
   \<and> pdf_render ok_world demo_fs missing_html_argv =
     (Exited,
      \<lparr>stdout = [''Starting PDF generation...'', ''HTML: /tmp/none.html'',
                 ''Output: /tmp/sheet.pdf''],
       stderr = [''HTML file not found: /tmp/none.html''],
       files = demo_fs, browser = NotLaunched, calls = [], exit_code = Some 1\<rparr>)"
  using missing_html_reported [where argv = missing_html_argv
      and htmlPath = "''/tmp/none.html''" and outputPath = "''/tmp/sheet.pdf''"
      and fs = demo_fs and w = ok_world]
  by (simp add: missing_html_argv_def demo_fs_def ok_world_def)

subsection \<open>Argument count\<close>

text \<open>A run with two arguments: how it opens, and the state in which it ends when every
  step succeeds.\<close>

lemma two_arg_run_opening:
  assumes "drop 2 argv = [htmlPath, outputPath]"
  shows "take 3 (stdout (snd (pdf_render w fs argv)))
          = [''Starting PDF generation...'', ''HTML: '' @ htmlPath,
             ''Output: '' @ outputPath]
      \<and> (fs (resolve w htmlPath) = None \<longrightarrow>
            stderr (snd (pdf_render w fs argv)) = [''HTML file not found: '' @ htmlPath])
      \<and> (fs (resolve w htmlPath) \<noteq> None \<and> executablePath_expr w = Inr exe \<longrightarrow>
            take 1 (calls (snd (pdf_render w fs argv))) = [Launch (launch_request exe)])
      \<and> (\<forall>p enc. ReadFile p enc \<in> set (calls (snd (pdf_render w fs argv)))
            \<longrightarrow> p = htmlPath)
      \<and> (\<forall>opts. Pdf opts \<in> set (calls (snd (pdf_render w fs argv)))
            \<longrightarrow> path opts = outputPath)"
  using assms
  by (cases rule: run_cases [where w = w and fs = fs])
    (auto simp add: run_simps pdf_request_def)

lemma two_arg_run_complete:
  assumes "drop 2 argv = [htmlPath, outputPath]"
  shows "fs (resolve w htmlPath) = Some (File html) \<and> executablePath_expr w = Inr exe
          \<and> launch_result w (launch_request exe) = Resolves
          \<and> newPage_result w = Resolves
          \<and> setContent_result w html = Resolves
          \<and> fonts_result w = Resolves
          \<and> waitForTimeout_result w 2000 = Resolves
          \<and> pdf_result w (pdf_request outputPath) = Resolves
          \<and> close_result w = Resolves
          \<longrightarrow> pdf_render w fs argv =
               (Exited,
                \<lparr>stdout = [''Starting PDF generation...'', ''HTML: '' @ htmlPath,
                           ''Output: '' @ outputPath, ''Browser launched'', ''HTML loaded'',
                           ''Fonts loaded'', ''KaTeX rendered'',
                           ''PDF generated successfully!'', ''Done!''],
                 stderr = [],
                 files = fs(resolve w outputPath \<mapsto> File (pdf_bytes w)),
                 browser = Closed,
                 calls = [Launch (launch_request exe), NewPage, ReadFile htmlPath ''utf8'',
                          SetContent html ''networkidle0'', FontsReady,
                          WaitForTimeout 2000, Pdf (pdf_request outputPath), Close],
                 exit_code = Some 0\<rparr>)"
  using assms by (simp add: run_defs pdf_request_def)

text \<open>
  C3.  With any number of arguments other than two, the process prints the usage text to
  standard error and exits with status 1 without a call to the browser.  With exactly two
  it enters the rendering pipeline with the first as \<open>htmlPath\<close> and the second as
  \<open>outputPath\<close>: it prints the three opening lines naming them, checks the file that the
  first names, attempts the launch as its first call when that file exists, reads no
  path but the first, captures to no path but the second, and, when every step
  succeeds, ends in the state of the complete pipeline, having read the first and
  written the second.
\<close>

theorem argument_count_checked:
  "(length (drop 2 argv) \<noteq> 2 \<longrightarrow>
      pdf_render w fs argv =
        (Exited,
         \<lparr>stdout = [], stderr = [''Usage: node pdf_render.js <html_path> <output_path>''],
          files = fs, browser = NotLaunched, calls = [], exit_code = Some 1\<rparr>))
   \<and> (drop 2 argv = [htmlPath, outputPath] \<longrightarrow>
        take 3 (stdout (snd (pdf_render w fs argv)))
          = [''Starting PDF generation...'', ''HTML: '' @ htmlPath,
             ''Output: '' @ outputPath]
      \<and> (fs (resolve w htmlPath) = None \<longrightarrow>
            stderr (snd (pdf_render w fs argv)) = [''HTML file not found: '' @ htmlPath])
      \<and> (fs (resolve w htmlPath) \<noteq> None \<and> executablePath_expr w = Inr exe \<longrightarrow>
            take 1 (calls (snd (pdf_render w fs argv))) = [Launch (launch_request exe)])
      \<and> (\<forall>p enc. ReadFile p enc \<in> set (calls (snd (pdf_render w fs argv)))
            \<longrightarrow> p = htmlPath)
      \<and> (\<forall>opts. Pdf opts \<in> set (calls (snd (pdf_render w fs argv)))
            \<longrightarrow> path opts = outputPath)
      \<and> (fs (resolve w htmlPath) = Some (File html) \<and> executablePath_expr w = Inr exe
          \<and> launch_result w (launch_request exe) = Resolves
          \<and> newPage_result w = Resolves
          \<and> setContent_result w html = Resolves
          \<and> fonts_result w = Resolves
          \<and> waitForTimeout_result w 2000 = Resolves
          \<and> pdf_result w (pdf_request outputPath) = Resolves
          \<and> close_result w = Resolves
          \<longrightarrow> pdf_render w fs argv =
               (Exited,
                \<lparr>stdout = [''Starting PDF generation...'', ''HTML: '' @ htmlPath,
                           ''Output: '' @ outputPath, ''Browser launched'', ''HTML loaded'',
                           ''Fonts loaded'', ''KaTeX rendered'',
                           ''PDF generated successfully!'', ''Done!''],
                 stderr = [],
                 files = fs(resolve w outputPath \<mapsto> File (pdf_bytes w)),
                 browser = Closed,
                 calls = [Launch (launch_request exe), NewPage, ReadFile htmlPath ''utf8'',
                          SetContent html ''networkidle0'', FontsReady,
                          WaitForTimeout 2000, Pdf (pdf_request outputPath), Close],
                 exit_code = Some 0\<rparr>)))"
  (is "?usage \<and> ?pipeline")
proof (rule conjI)
  show ?usage
    by (simp add: pdf_render_def usage_def initial_def console_error_def process_exit_def)
next
  show ?pipeline
    using two_arg_run_opening [where argv = argv and w = w and fs = fs and exe = exe]
      two_arg_run_complete [where argv = argv and w = w and fs = fs and exe = exe
        and html = html]
    by blast
qed

text \<open>One argument gives the usage text.  Two arguments give the pipeline: on a missing
  input the message names the first argument, and in the world where every call
  succeeds the run reads the first argument and writes the second.\<close>

theorem argument_count_checked_witness:
  "length (drop 2 one_arg_argv) \<noteq> 2
   \<and> pdf_render ok_world demo_fs one_arg_argv =
        (Exited,
         \<lparr>stdout = [], stderr = [''Usage: node pdf_render.js <html_path> <output_path>''],
          files = demo_fs, browser = NotLaunched, calls = [], exit_code = Some 1\<rparr>)
   \<and> drop 2 missing_html_argv = [''/tmp/none.html'', ''/tmp/sheet.pdf'']
   \<and> demo_fs (resolve ok_world ''/tmp/none.html'') = None
   \<and> stderr (snd (pdf_render ok_world demo_fs missing_html_argv))
       = [''HTML file not found: /tmp/none.html'']
   \<and> drop 2 demo_argv = [''/tmp/sheet.html'', ''/tmp/sheet.pdf'']
   \<and> demo_fs (resolve ok_world ''/tmp/sheet.html'') = Some (File ''<p>x</p>'')
   \<and> executablePath_expr ok_world = Inr ''/usr/bin/chromium''
   \<and> take 3 (stdout (snd (pdf_render ok_world demo_fs demo_argv)))
       = [''Starting PDF generation...'', ''HTML: /tmp/sheet.html'',
          ''Output: /tmp/sheet.pdf'']
   \<and> take 1 (calls (snd (pdf_render ok_world demo_fs demo_argv)))
       = [Launch (launch_request ''/usr/bin/chromium'')]
   \<and> pdf_render ok_world demo_fs demo_argv =
        (Exited,
         \<lparr>stdout = [''Starting PDF generation...'', ''HTML: /tmp/sheet.html'',
                    ''Output: /tmp/sheet.pdf'', ''Browser launched'', ''HTML loaded'',
                    ''Fonts loaded'', ''KaTeX rendered'', ''PDF generated successfully!'',
                    ''Done!''],
          stderr = [],
          files = demo_fs(''/tmp/sheet.pdf'' \<mapsto> File ''%PDF-1.4''),
          browser = Closed,
          calls = [Launch (launch_request ''/usr/bin/chromium''), NewPage,
                   ReadFile ''/tmp/sheet.html'' ''utf8'',
                   SetContent ''<p>x</p>'' ''networkidle0'', FontsReady,
                   WaitForTimeout 2000, Pdf (pdf_request ''/tmp/sheet.pdf''), Close],
          exit_code = Some 0\<rparr>)"
proof -
  have count: "length (drop 2 one_arg_argv) \<noteq> 2"
    by (simp add: one_arg_argv_def)
  note usage_run = argument_count_checked [where argv = one_arg_argv and w = ok_world
      and fs = demo_fs, THEN conjunct1, THEN mp, OF count]
  have missing_args: "drop 2 missing_html_argv = [''/tmp/none.html'', ''/tmp/sheet.pdf'']"
    by (simp add: missing_html_argv_def)
  have missing: "demo_fs (resolve ok_world ''/tmp/none.html'') = None"
    by (simp add: demo_fs_def ok_world_def)
  note missing_run = argument_count_checked [where argv = missing_html_argv
      and w = ok_world and fs = demo_fs, THEN conjunct2, THEN mp, OF missing_args]
  have reported: "stderr (snd (pdf_render ok_world demo_fs missing_html_argv))
       = [''HTML file not found: /tmp/none.html'']"
    using missing_run missing by simp
  have args: "drop 2 demo_argv = [''/tmp/sheet.html'', ''/tmp/sheet.pdf'']"
    by (simp add: demo_argv_def)
  have present: "demo_fs (resolve ok_world ''/tmp/sheet.html'') = Some (File ''<p>x</p>'')"
    by (simp add: demo_fs_def ok_world_def)
  have exe: "executablePath_expr ok_world = Inr ''/usr/bin/chromium''"
    by (simp add: executablePath_expr_def ok_world_def)
  have resolves: "launch_result ok_world (launch_request ''/usr/bin/chromium'') = Resolves"
    "newPage_result ok_world = Resolves" "setContent_result ok_world ''<p>x</p>'' = Resolves"
    "fonts_result ok_world = Resolves" "waitForTimeout_result ok_world 2000 = Resolves"
    "pdf_result ok_world (pdf_request ''/tmp/sheet.pdf'') = Resolves"
    "close_result ok_world = Resolves"
    by (simp_all add: ok_world_def)
  note pipeline_run = argument_count_checked [where argv = demo_argv and w = ok_world
      and fs = demo_fs and html = "''<p>x</p>''" and exe = "''/usr/bin/chromium''",
      THEN conjunct2, THEN mp, OF args]
  have first_lines: "take 3 (stdout (snd (pdf_render ok_world demo_fs demo_argv)))
       = [''Starting PDF generation...'', ''HTML: /tmp/sheet.html'',
          ''Output: /tmp/sheet.pdf'']"
    using pipeline_run [THEN conjunct1] by simp
  have first_call: "take 1 (calls (snd (pdf_render ok_world demo_fs demo_argv)))
       = [Launch (launch_request ''/usr/bin/chromium'')]"
    using pipeline_run [THEN conjunct2, THEN conjunct2, THEN conjunct1] present exe
    by simp
  have complete: "pdf_render ok_world demo_fs demo_argv =
        (Exited,
         \<lparr>stdout = [''Starting PDF generation...'', ''HTML: /tmp/sheet.html'',
                    ''Output: /tmp/sheet.pdf'', ''Browser launched'', ''HTML loaded'',
                    ''Fonts loaded'', ''KaTeX rendered'', ''PDF generated successfully!'',
                    ''Done!''],
          stderr = [],
          files = demo_fs(''/tmp/sheet.pdf'' \<mapsto> File ''%PDF-1.4''),
          browser = Closed,
          calls = [Launch (launch_request ''/usr/bin/chromium''), NewPage,
                   ReadFile ''/tmp/sheet.html'' ''utf8'',
                   SetContent ''<p>x</p>'' ''networkidle0'', FontsReady,
                   WaitForTimeout 2000, Pdf (pdf_request ''/tmp/sheet.pdf''), Close],
          exit_code = Some 0\<rparr>)"
    using pipeline_run [THEN conjunct2, THEN conjunct2, THEN conjunct2, THEN conjunct2,
        THEN conjunct2] present exe resolves
    by (simp add: ok_world_def)
  from count usage_run missing_args missing reported args present exe first_lines first_call
    complete
  show ?thesis by blast
qed

subsection \<open>Exit status\<close>

text \<open>
  C4.  The exit status of the process is the one the specification gives: 1 for a wrong
  argument count, 1 for a missing input file, 1 when the executable path, the launch or a
  later step fails, 0 when every step succeeds.  No other status is produced; a run has
  no status only when an awaited call never settles.
\<close>

theorem exit_code_is_0_or_1:
  "exit_code (snd (pdf_render w fs argv)) = spec_exit_code w fs argv
   \<and> (exit_code (snd (pdf_render w fs argv)) = None
      \<or> exit_code (snd (pdf_render w fs argv)) = Some 0
      \<or> exit_code (snd (pdf_render w fs argv)) = Some 1)"
proof -
  have eq: "exit_code (snd (pdf_render w fs argv)) = spec_exit_code w fs argv"
  proof (cases "length (drop 2 argv) = 2")
    case True
    then obtain h out where "drop 2 argv = [h, out]"
      using two_args by blast
    then show ?thesis by (rule exit_code_two_args)
  next
    case False
    then show ?thesis by (rule exit_code_wrong_count)
  qed
  show ?thesis
    unfolding eq using spec_exit_code_range [of w fs argv] by simp
qed

text \<open>Status 0 for the run in which everything succeeds, status 1 for the run whose page
  load is rejected.\<close>

theorem exit_code_is_0_or_1_witness:
  "exit_code (snd (pdf_render ok_world demo_fs demo_argv)) = Some 0
   \<and> spec_exit_code ok_world demo_fs demo_argv = Some 0
   \<and> exit_code (snd (pdf_render load_timeout_world demo_fs demo_argv)) = Some 1
   \<and> spec_exit_code load_timeout_world demo_fs demo_argv = Some 1"
  using exit_code_is_0_or_1 [of ok_world demo_fs demo_argv]
    exit_code_is_0_or_1 [of load_timeout_world demo_fs demo_argv]
  by (simp add: run_defs demo_defs)

subsection \<open>The capture request\<close>

text \<open>
  C5.  Every capture request the renderer issues asks for page size A4 with printed
  backgrounds and margins of 10mm at the top, 15mm at the bottom, 10mm left and 10mm
  right, and names \<open>outputPath\<close> as the file to write; when the request resolves, the
  document is the file at \<open>outputPath\<close>.
\<close>

theorem pdf_request_fixed:
  assumes "drop 2 argv = [htmlPath, outputPath]"
  shows "(Pdf opts \<in> set (calls (snd (pdf_render w fs argv))) \<longrightarrow>
            opts = \<lparr>path = outputPath, format = ''A4'', printBackground = True,
                    margin = \<lparr>margin_top = ''10mm'', margin_bottom = ''15mm'',
                              margin_left = ''10mm'', margin_right = ''10mm''\<rparr>\<rparr>)
       \<and> (Pdf opts \<in> set (calls (snd (pdf_render w fs argv))) \<and> pdf_result w opts = Resolves
            \<longrightarrow> files (snd (pdf_render w fs argv)) (resolve w outputPath)
                 = Some (File (pdf_bytes w)))"
  using assms
  by (cases rule: run_cases [where w = w and fs = fs])
    (auto simp add: run_simps pdf_request_def)

theorem pdf_request_fixed_witness:
  "drop 2 demo_argv = [''/tmp/sheet.html'', ''/tmp/sheet.pdf'']
   \<and> Pdf (pdf_request ''/tmp/sheet.pdf'')
        \<in> set (calls (snd (pdf_render ok_world demo_fs demo_argv)))
   \<and> pdf_result ok_world (pdf_request ''/tmp/sheet.pdf'') = Resolves
   \<and> pdf_request ''/tmp/sheet.pdf''
       = \<lparr>path = ''/tmp/sheet.pdf'', format = ''A4'', printBackground = True,
          margin = \<lparr>margin_top = ''10mm'', margin_bottom = ''15mm'',
                    margin_left = ''10mm'', margin_right = ''10mm''\<rparr>\<rparr>
   \<and> files (snd (pdf_render ok_world demo_fs demo_argv)) (resolve ok_world ''/tmp/sheet.pdf'')
       = Some (File ''%PDF-1.4'')"
  using pdf_request_fixed [where argv = demo_argv and htmlPath = "''/tmp/sheet.html''"
      and outputPath = "''/tmp/sheet.pdf''" and opts = "pdf_request ''/tmp/sheet.pdf''"
      and w = ok_world and fs = demo_fs]
  by (simp add: run_defs demo_defs)

subsection \<open>Order of the steps\<close>

text \<open>
  C6.  In every run that evaluates the executable path and so reaches the launch, the
  calls issued are an initial part of the pipeline: launch, new page, read the HTML, set
  the content waiting for \<^verbatim>\<open>networkidle0\<close>, wait for the fonts, wait 2000 milliseconds,
  capture, close; and every call but the last one issued has resolved.  So each wait has
  completed before the next step starts, and the capture comes after all three waits.
\<close>

theorem steps_strictly_sequential:
  assumes "drop 2 argv = [htmlPath, outputPath]"
    and "executablePath_expr w = Inr exe"
  shows "prefix (calls (snd (pdf_render w fs argv)))
           (spec_pipeline exe htmlPath (html_of w fs htmlPath) outputPath)
       \<and> (\<forall>r \<in> set (take (length (calls (snd (pdf_render w fs argv))) - 1)
                         (step_outcomes w fs exe htmlPath outputPath)).
             r = Resolves)"
  using assms
  by (cases rule: run_cases [where w = w and fs = fs]) (auto simp add: run_simps)

text \<open>The run whose page load is rejected stops after four calls, the first three of
  which have resolved; the run in which everything succeeds issues the whole pipeline.\<close>

theorem steps_strictly_sequential_witness:
  "drop 2 demo_argv = [''/tmp/sheet.html'', ''/tmp/sheet.pdf'']
   \<and> executablePath_expr load_timeout_world = Inr ''/usr/bin/chromium''
   \<and> calls (snd (pdf_render load_timeout_world demo_fs demo_argv))
       = [Launch (launch_request ''/usr/bin/chromium''), NewPage,
          ReadFile ''/tmp/sheet.html'' ''utf8'', SetContent ''<p>x</p>'' ''networkidle0'']
   \<and> prefix (calls (snd (pdf_render load_timeout_world demo_fs demo_argv)))
        (spec_pipeline ''/usr/bin/chromium'' ''/tmp/sheet.html''
           (html_of load_timeout_world demo_fs ''/tmp/sheet.html'') ''/tmp/sheet.pdf'')
   \<and> take (length (calls (snd (pdf_render load_timeout_world demo_fs demo_argv))) - 1)
        (step_outcomes load_timeout_world demo_fs ''/usr/bin/chromium''
           ''/tmp/sheet.html'' ''/tmp/sheet.pdf'')
       = [Resolves, Resolves, Resolves]
   \<and> calls (snd (pdf_render ok_world demo_fs demo_argv))
       = spec_pipeline ''/usr/bin/chromium'' ''/tmp/sheet.html'' ''<p>x</p>''
           ''/tmp/sheet.pdf''"
  using steps_strictly_sequential [where argv = demo_argv
      and htmlPath = "''/tmp/sheet.html''" and outputPath = "''/tmp/sheet.pdf''"
      and w = load_timeout_world and exe = "''/usr/bin/chromium''" and fs = demo_fs]
  by (simp add: run_defs demo_defs spec_pipeline_def step_outcomes_def read_outcome_def
      html_of_def)

subsection \<open>The browser executable\<close>

text \<open>
  C7.  The executable path of every launch request is the value of
  \<^verbatim>\<open>PUPPETEER_EXECUTABLE_PATH\<close> when that variable is set and not empty, and the path
  Puppeteer itself reports when the variable is unset or empty.
\<close>

theorem executable_path_override:
  assumes "drop 2 argv = [htmlPath, outputPath]"
    and "Launch opts \<in> set (calls (snd (pdf_render w fs argv)))"
  shows "(\<forall>p. env_executable w = Some p \<and> p \<noteq> [] \<longrightarrow> executablePath opts = p)
       \<and> (env_executable w = None \<or> env_executable w = Some []
            \<longrightarrow> bundled_executable w = Inr (executablePath opts))"
proof -
  have "Launch opts \<in> set (calls (snd (pdf_render w fs argv)))
        \<longrightarrow> executablePath_expr w = Inr (executablePath opts)"
    using assms(1)
    by (cases rule: run_cases [where w = w and fs = fs])
      (auto simp add: run_simps launch_request_def)
  with assms(2) have "executablePath_expr w = Inr (executablePath opts)" by simp
  then show ?thesis
    by (auto simp add: executablePath_expr_def split: option.splits if_splits)
qed

text \<open>With the variable set to \<^verbatim>\<open>/usr/bin/chromium\<close> the launch uses it; without the
  variable the launch uses Puppeteer's path.\<close>

theorem executable_path_override_witness:
  "drop 2 demo_argv = [''/tmp/sheet.html'', ''/tmp/sheet.pdf'']
   \<and> Launch (launch_request ''/usr/bin/chromium'')
        \<in> set (calls (snd (pdf_render ok_world demo_fs demo_argv)))
   \<and> env_executable ok_world = Some ''/usr/bin/chromium''
   \<and> executablePath (launch_request ''/usr/bin/chromium'') = ''/usr/bin/chromium''
   \<and> Launch (launch_request ''/app/.cache/puppeteer/chrome'')
        \<in> set (calls (snd (pdf_render no_env_world demo_fs demo_argv)))
   \<and> env_executable no_env_world = None
   \<and> bundled_executable no_env_world
        = Inr (executablePath (launch_request ''/app/.cache/puppeteer/chrome''))"
  using executable_path_override [where argv = demo_argv
      and htmlPath = "''/tmp/sheet.html''" and outputPath = "''/tmp/sheet.pdf''"
      and opts = "launch_request ''/usr/bin/chromium''" and w = ok_world and fs = demo_fs]
    executable_path_override [where argv = demo_argv
      and htmlPath = "''/tmp/sheet.html''" and outputPath = "''/tmp/sheet.pdf''"
      and opts = "launch_request ''/app/.cache/puppeteer/chrome''" and w = no_env_world
      and fs = demo_fs]
  by (simp add: run_defs demo_defs)

subsection \<open>Effects on the file system\<close>

text \<open>
  C8, as amended.  In every invocation whose \<open>outputPath\<close> does not name the same file as
  \<open>htmlPath\<close>, the file at \<open>htmlPath\<close> is never mutated.  The only file the renderer reads is
  \<open>htmlPath\<close>, as UTF-8.  On success it has written exactly one file: the one capture of
  the run, to \<open>outputPath\<close>, and the file system is the initial one with that file
  written.  The file system of the model holds what the script reads and asks to have
  written; the browser's own temporary files are not part of it.
\<close>

theorem input_untouched_unless_same_file:
  assumes "drop 2 argv = [htmlPath, outputPath]"
  shows "(resolve w outputPath \<noteq> resolve w htmlPath \<longrightarrow>
            files (snd (pdf_render w fs argv)) (resolve w htmlPath) = fs (resolve w htmlPath))
       \<and> (\<forall>p enc. ReadFile p enc \<in> set (calls (snd (pdf_render w fs argv)))
            \<longrightarrow> p = htmlPath \<and> enc = ''utf8'')
       \<and> (exit_code (snd (pdf_render w fs argv)) = Some 0 \<longrightarrow>
            filter is_capture (calls (snd (pdf_render w fs argv)))
              = [Pdf (pdf_request outputPath)]
            \<and> files (snd (pdf_render w fs argv))
              = fs(resolve w outputPath \<mapsto> File (pdf_bytes w)))"
  using assms
  by (cases rule: run_cases [where w = w and fs = fs])
    (auto simp add: run_simps split: if_splits)

theorem input_untouched_unless_same_file_witness:
  "drop 2 demo_argv = [''/tmp/sheet.html'', ''/tmp/sheet.pdf'']
   \<and> resolve ok_world ''/tmp/sheet.pdf'' \<noteq> resolve ok_world ''/tmp/sheet.html''
   \<and> files (snd (pdf_render ok_world demo_fs demo_argv)) (resolve ok_world ''/tmp/sheet.html'')
       = Some (File ''<p>x</p>'')
   \<and> ReadFile ''/tmp/sheet.html'' ''utf8''
        \<in> set (calls (snd (pdf_render ok_world demo_fs demo_argv)))
   \<and> exit_code (snd (pdf_render ok_world demo_fs demo_argv)) = Some 0
   \<and> filter is_capture (calls (snd (pdf_render ok_world demo_fs demo_argv)))
       = [Pdf (pdf_request ''/tmp/sheet.pdf'')]
   \<and> files (snd (pdf_render ok_world demo_fs demo_argv))
       = demo_fs(''/tmp/sheet.pdf'' \<mapsto> File ''%PDF-1.4'')"
  using input_untouched_unless_same_file [where argv = demo_argv
      and htmlPath = "''/tmp/sheet.html''" and outputPath = "''/tmp/sheet.pdf''"
      and w = ok_world and fs = demo_fs]
  by (simp add: run_defs demo_defs)

text \<open>
  C8 without the condition on the paths fails: the renderer does not compare them.
  Called with the input file as output path, the successful run replaces the HTML by the
  document.
\<close>

theorem input_overwritten_counterexample:
  "demo_fs ''/tmp/sheet.html'' = Some (File ''<p>x</p>'')
   \<and> exit_code (snd (pdf_render ok_world demo_fs same_path_argv)) = Some 0
   \<and> files (snd (pdf_render ok_world demo_fs same_path_argv)) ''/tmp/sheet.html''
       = Some (File ''%PDF-1.4'')
   \<and> files (snd (pdf_render ok_world demo_fs same_path_argv)) ''/tmp/sheet.html''
       \<noteq> demo_fs ''/tmp/sheet.html''"
  by (simp add: run_defs demo_defs)

text \<open>The same happens when the output path is another spelling of the input path:
  the two strings differ, the file is the same, and the run overwrites it.\<close>

lemma other_spelling_overwrites_input:
  "''/tmp/./sheet.html'' \<noteq> ''/tmp/sheet.html''
   \<and> resolve alias_world ''/tmp/./sheet.html'' = resolve alias_world ''/tmp/sheet.html''
   \<and> exit_code (snd (pdf_render alias_world demo_fs alias_argv)) = Some 0
   \<and> files (snd (pdf_render alias_world demo_fs alias_argv)) ''/tmp/sheet.html''
       = Some (File ''%PDF-1.4'')"
  by (simp add: run_defs demo_defs)

subsection \<open>Exit after close\<close>

text \<open>
  C9.  A run that exits with status 0 has closed the browser first: the last call issued
  is \<^verbatim>\<open>browser.close()\<close>, it has resolved, the browser is closed, and only then did the
  handler print \<^verbatim>\<open>Done!\<close> and exit.
\<close>

theorem exit_0_after_close:
  assumes "drop 2 argv = [htmlPath, outputPath]"
    and "exit_code (snd (pdf_render w fs argv)) = Some 0"
  shows "browser (snd (pdf_render w fs argv)) = Closed
       \<and> last (calls (snd (pdf_render w fs argv))) = Close
       \<and> close_result w = Resolves
       \<and> last (stdout (snd (pdf_render w fs argv))) = ''Done!''"
  using assms
  by (cases rule: run_cases [where w = w and fs = fs])
    (auto simp add: run_simps split: if_splits)

theorem exit_0_after_close_witness:
  "drop 2 demo_argv = [''/tmp/sheet.html'', ''/tmp/sheet.pdf'']
   \<and> exit_code (snd (pdf_render ok_world demo_fs demo_argv)) = Some 0
   \<and> browser (snd (pdf_render ok_world demo_fs demo_argv)) = Closed
   \<and> last (calls (snd (pdf_render ok_world demo_fs demo_argv))) = Close
   \<and> close_result ok_world = Resolves
   \<and> last (stdout (snd (pdf_render ok_world demo_fs demo_argv))) = ''Done!''"
  using exit_0_after_close [where argv = demo_argv
      and htmlPath = "''/tmp/sheet.html''" and outputPath = "''/tmp/sheet.pdf''"
      and w = ok_world and fs = demo_fs]
  by (simp add: run_defs demo_defs)

subsection \<open>No validation of the output path\<close>

text \<open>
  C10.  The renderer does not look at \<open>outputPath\<close> before the capture: the calls it issues
  before the capture are the same for any two output paths.  When the capture is rejected
  because of the output path (and the steps before it succeed), the run has launched the
  browser, loaded the page and completed all three waits, the rejection is reported by
  the handler of line 72, and the process exits with status 1 having written nothing.
\<close>

theorem output_path_fails_at_capture:
  assumes "drop 2 argv = [htmlPath, outputPath]"
    and "drop 2 argv' = [htmlPath, outputPath']"
  shows "takeWhile (\<lambda>ev. \<not> is_capture ev) (calls (snd (pdf_render w fs argv)))
         = takeWhile (\<lambda>ev. \<not> is_capture ev) (calls (snd (pdf_render w fs argv')))
       \<and> (fs (resolve w htmlPath) = Some (File html) \<and> executablePath_expr w = Inr exe
          \<and> launch_result w (launch_request exe) = Resolves
          \<and> newPage_result w = Resolves
          \<and> setContent_result w html = Resolves
          \<and> fonts_result w = Resolves
          \<and> waitForTimeout_result w 2000 = Resolves
          \<and> pdf_result w (pdf_request outputPath) = Rejects e
          \<longrightarrow> pdf_render w fs argv =
               (Exited,
                \<lparr>stdout = [''Starting PDF generation...'', ''HTML: '' @ htmlPath,
                           ''Output: '' @ outputPath, ''Browser launched'', ''HTML loaded'',
                           ''Fonts loaded'', ''KaTeX rendered''],
                 stderr = [''Error generating PDF: '' @ e],
                 files = fs, browser = Running,
                 calls = [Launch (launch_request exe), NewPage, ReadFile htmlPath ''utf8'',
                          SetContent html ''networkidle0'', FontsReady,
                          WaitForTimeout 2000, Pdf (pdf_request outputPath)],
                 exit_code = Some 1\<rparr>))"
proof
  show "takeWhile (\<lambda>ev. \<not> is_capture ev) (calls (snd (pdf_render w fs argv)))
        = takeWhile (\<lambda>ev. \<not> is_capture ev) (calls (snd (pdf_render w fs argv')))"
    using assms(1)
  proof (cases rule: run_cases [where w = w and fs = fs])
  qed (use assms(2) in \<open>cases rule: run_cases [where w = w and fs = fs];
        auto simp add: run_simps\<close>)+
next
  show "fs (resolve w htmlPath) = Some (File html) \<and> executablePath_expr w = Inr exe
          \<and> launch_result w (launch_request exe) = Resolves
          \<and> newPage_result w = Resolves
          \<and> setContent_result w html = Resolves
          \<and> fonts_result w = Resolves
          \<and> waitForTimeout_result w 2000 = Resolves
          \<and> pdf_result w (pdf_request outputPath) = Rejects e
          \<longrightarrow> pdf_render w fs argv =
               (Exited,
                \<lparr>stdout = [''Starting PDF generation...'', ''HTML: '' @ htmlPath,
                           ''Output: '' @ outputPath, ''Browser launched'', ''HTML loaded'',
                           ''Fonts loaded'', ''KaTeX rendered''],
                 stderr = [''Error generating PDF: '' @ e],
                 files = fs, browser = Running,
                 calls = [Launch (launch_request exe), NewPage, ReadFile htmlPath ''utf8'',
                          SetContent html ''networkidle0'', FontsReady,
                          WaitForTimeout 2000, Pdf (pdf_request outputPath)],
                 exit_code = Some 1\<rparr>)"
    using assms(1) by (simp add: run_defs)
qed

text \<open>Nothing can be written below \<^verbatim>\<open>/missing\<close>: the run reaches the capture, as the run
  with a good output path does, and exits with status 1 there.\<close>

theorem output_path_fails_at_capture_witness:
  "drop 2 no_dir_argv = [''/tmp/sheet.html'', ''/missing/sheet.pdf'']
   \<and> drop 2 demo_argv = [''/tmp/sheet.html'', ''/tmp/sheet.pdf'']
   \<and> demo_fs (resolve no_dir_world ''/tmp/sheet.html'') = Some (File ''<p>x</p>'')
   \<and> executablePath_expr no_dir_world = Inr ''/usr/bin/chromium''
   \<and> launch_result no_dir_world (launch_request ''/usr/bin/chromium'') = Resolves
   \<and> newPage_result no_dir_world = Resolves
   \<and> setContent_result no_dir_world ''<p>x</p>'' = Resolves
   \<and> fonts_result no_dir_world = Resolves
   \<and> waitForTimeout_result no_dir_world 2000 = Resolves
   \<and> pdf_result no_dir_world (pdf_request ''/missing/sheet.pdf'')
       = Rejects ''ENOENT: no such file or directory''
   \<and> takeWhile (\<lambda>ev. \<not> is_capture ev) (calls (snd (pdf_render no_dir_world demo_fs no_dir_argv)))
       = takeWhile (\<lambda>ev. \<not> is_capture ev) (calls (snd (pdf_render no_dir_world demo_fs demo_argv)))
   \<and> fst (pdf_render no_dir_world demo_fs no_dir_argv) = Exited
   \<and> exit_code (snd (pdf_render no_dir_world demo_fs no_dir_argv)) = Some 1
   \<and> stderr (snd (pdf_render no_dir_world demo_fs no_dir_argv))
       = [''Error generating PDF: ENOENT: no such file or directory'']
   \<and> last (calls (snd (pdf_render no_dir_world demo_fs no_dir_argv)))
       = Pdf (pdf_request ''/missing/sheet.pdf'')"
  using output_path_fails_at_capture [where argv = no_dir_argv and argv' = demo_argv
      and htmlPath = "''/tmp/sheet.html''" and outputPath = "''/missing/sheet.pdf''"
      and outputPath' = "''/tmp/sheet.pdf''" and w = no_dir_world and fs = demo_fs
      and html = "''<p>x</p>''" and exe = "''/usr/bin/chromium''"
      and e = "''ENOENT: no such file or directory''"]
  by (simp add: run_defs demo_defs)

end
